theory Spec2Isabelle
  imports Main
begin

section \<open>JavaScript dates\<close>

text \<open>
  A JavaScript \<open>Date\<close> is its time value: the milliseconds since 1970-01-01T00:00Z.
  The functions below are the date arithmetic of the language (Day, TimeWithinDay,
  DayFromYear, YearFromTime, MonthFromTime, DateFromTime, WeekDay, MakeDay, LocalTime,
  UTC), on day numbers. The time zone of the script is any pair of offset functions, so
  daylight-saving changes are covered.
\<close>

type_synonym time = int

definition msPerDay :: int where
  "msPerDay = 86400000"

definition Day :: "int \<Rightarrow> int" where
  "Day t = t div msPerDay"

definition TimeWithinDay :: "int \<Rightarrow> int" where
  "TimeWithinDay t = t mod msPerDay"

definition DayFromYear :: "int \<Rightarrow> int" where
  "DayFromYear y =
     365 * (y - 1970) + (y - 1969) div 4 - (y - 1901) div 100 + (y - 1601) div 400"

definition InLeapYear :: "int \<Rightarrow> int" where
  "InLeapYear y =
     (if y mod 4 \<noteq> 0 then 0 else if y mod 100 \<noteq> 0 then 1 else if y mod 400 \<noteq> 0 then 0 else 1)"

text \<open>The year of a day number: the estimate from the mean year length is off by at most one.\<close>

definition YearFromDay :: "int \<Rightarrow> int" where
  "YearFromDay d =
     (let y = 1970 + (d * 400) div 146097
      in if d < DayFromYear y then y - 1
         else if DayFromYear (y + 1) \<le> d then y + 1
         else y)"

definition daysBeforeMonth :: "int \<Rightarrow> int \<Rightarrow> int" where
  "daysBeforeMonth leap m =
     (if m = 0 then 0 else if m = 1 then 31 else if m = 2 then 59 + leap
      else if m = 3 then 90 + leap else if m = 4 then 120 + leap
      else if m = 5 then 151 + leap else if m = 6 then 181 + leap
      else if m = 7 then 212 + leap else if m = 8 then 243 + leap
      else if m = 9 then 273 + leap else if m = 10 then 304 + leap
      else 334 + leap)"

definition DayWithinYear :: "int \<Rightarrow> int" where
  "DayWithinYear d = d - DayFromYear (YearFromDay d)"

definition MonthFromDay :: "int \<Rightarrow> int" where
  "MonthFromDay d =
     (let w = DayWithinYear d; leap = InLeapYear (YearFromDay d)
      in if w < 31 then 0 else if w < 59 + leap then 1 else if w < 90 + leap then 2
         else if w < 120 + leap then 3 else if w < 151 + leap then 4
         else if w < 181 + leap then 5 else if w < 212 + leap then 6
         else if w < 243 + leap then 7 else if w < 273 + leap then 8
         else if w < 304 + leap then 9 else if w < 334 + leap then 10
         else 11)"

definition DateFromDay :: "int \<Rightarrow> int" where
  "DateFromDay d =
     DayWithinYear d - daysBeforeMonth (InLeapYear (YearFromDay d)) (MonthFromDay d) + 1"

definition WeekDay :: "int \<Rightarrow> int" where
  "WeekDay d = (d + 4) mod 7"

text \<open>MakeDay accepts any month and day of month and carries the overflow.\<close>

definition MakeDay :: "int \<Rightarrow> int \<Rightarrow> int \<Rightarrow> int" where
  "MakeDay y m dt =
     (let ym = y + m div 12; mn = m mod 12
      in DayFromYear ym + daysBeforeMonth (InLeapYear ym) mn + dt - 1)"

text \<open>
  A time zone gives the offset of local time in force at a time value, and the offset to
  use for a local wall time (the language takes the offset before the transition for a
  wall time that a daylight-saving change skips or repeats).
\<close>

record zone =
  offsetAt :: "time \<Rightarrow> int"
  offsetOfLocal :: "int \<Rightarrow> int"

definition LocalTime :: "zone \<Rightarrow> time \<Rightarrow> int" where
  "LocalTime z t = t + offsetAt z t"

definition UTC :: "zone \<Rightarrow> int \<Rightarrow> time" where
  "UTC z l = l - offsetOfLocal z l"

text \<open>The methods of \<open>Date\<close> the scripts call, in local time.\<close>

definition getFullYear :: "zone \<Rightarrow> time \<Rightarrow> int" where
  "getFullYear z t = YearFromDay (Day (LocalTime z t))"

definition getMonth :: "zone \<Rightarrow> time \<Rightarrow> int" where
  "getMonth z t = MonthFromDay (Day (LocalTime z t))"

definition getDate :: "zone \<Rightarrow> time \<Rightarrow> int" where
  "getDate z t = DateFromDay (Day (LocalTime z t))"

definition getDay :: "zone \<Rightarrow> time \<Rightarrow> int" where
  "getDay z t = WeekDay (Day (LocalTime z t))"

text \<open>
  \<open>toDateString\<close> prints the weekday, the month, the day of the month and the year of the
  local day ("Sun Mar 10 2024"); the model keeps the four numbers it prints.
\<close>

definition toDateString :: "zone \<Rightarrow> time \<Rightarrow> int \<times> int \<times> int \<times> int" where
  "toDateString z t = (getDay z t, getMonth z t, getDate z t, getFullYear z t)"

text \<open>
  \<open>setDate\<close> replaces the day of the month of the local wall time, keeps the wall time of
  day, and converts the wall time back to a time value.
\<close>

definition setDate :: "zone \<Rightarrow> time \<Rightarrow> int \<Rightarrow> time" where
  "setDate z t dt =
     UTC z (MakeDay (getFullYear z t) (getMonth z t) dt * msPerDay
            + TimeWithinDay (LocalTime z t))"

text \<open>\<open>new Date(year, month, day)\<close>: local midnight; years 0 to 99 mean 1900 to 1999.\<close>

definition newDateYMD :: "zone \<Rightarrow> int \<Rightarrow> int \<Rightarrow> int \<Rightarrow> time" where
  "newDateYMD z y m dt =
     UTC z (MakeDay (if 0 \<le> y \<and> y \<le> 99 then 1900 + y else y) m dt * msPerDay)"

text \<open>\<open>Math.floor(a / b)\<close> and \<open>Math.ceil(a / b)\<close> on integers, for positive \<open>b\<close>.\<close>

definition floorDiv :: "int \<Rightarrow> int \<Rightarrow> int" where
  "floorDiv a b = a div b"

definition ceilDiv :: "int \<Rightarrow> int \<Rightarrow> int" where
  "ceilDiv a b = - ((- a) div b)"

section \<open>Spreadsheet cells, strings and mail\<close>

text \<open>
  \<open>getValues()\<close> returns a text, a number, a boolean or a \<open>Date\<close> for each cell; an empty
  cell is the empty text. Numbers are kept at integer values. \<open>truthy\<close> is the truth value
  JavaScript gives a cell in a condition.
\<close>

datatype cell = CStr string | CNum int | CBool bool | CDate time

fun truthy :: "cell \<Rightarrow> bool" where
  "truthy (CStr s) = (s \<noteq> [])"
| "truthy (CNum n) = (n \<noteq> 0)"
| "truthy (CBool b) = b"
| "truthy (CDate t) = True"

text \<open>
  \<open>new Date(value)\<close>: a \<open>Date\<close> is copied, a number is the time value itself (within the
  range of time values), a boolean counts as 0 or 1, and a text goes through the engine's
  date parser, a parameter here. \<open>None\<close> is the Invalid Date.
\<close>

definition newDate :: "(string \<Rightarrow> time option) \<Rightarrow> cell \<Rightarrow> time option" where
  "newDate parse c =
     (case c of
        CDate t \<Rightarrow> Some t
      | CNum n \<Rightarrow> (if \<bar>n\<bar> \<le> 8640000000000000 then Some n else None)
      | CBool b \<Rightarrow> Some (if b then 1 else 0)
      | CStr s \<Rightarrow> parse s)"

text \<open>Strings are ASCII. \<open>trim\<close> strips the white space of both ends.\<close>

definition isWhiteSpace :: "char \<Rightarrow> bool" where
  "isWhiteSpace c = (of_char c \<in> {9, 10, 11, 12, 13, 32 :: nat})"

definition trim :: "string \<Rightarrow> string" where
  "trim s = rev (dropWhile isWhiteSpace (rev (dropWhile isWhiteSpace s)))"

definition isUpper :: "char \<Rightarrow> bool" where
  "isUpper c = (65 \<le> (of_char c :: nat) \<and> (of_char c :: nat) \<le> 90)"

definition isLower :: "char \<Rightarrow> bool" where
  "isLower c = (97 \<le> (of_char c :: nat) \<and> (of_char c :: nat) \<le> 122)"

definition toLowerCase :: "string \<Rightarrow> string" where
  "toLowerCase s = map (\<lambda>c. if isUpper c then char_of (of_char c + (32 :: nat)) else c) s"

text \<open>\<open>s.split(",")\<close>: the pieces between the commas; the empty string has one empty piece.\<close>

fun split_comma :: "string \<Rightarrow> string list" where
  "split_comma [] = [[]]"
| "split_comma (c # cs) =
     (if c = CHR '','' then [] # split_comma cs
      else (case split_comma cs of
              [] \<Rightarrow> [[c]]
            | w # ws \<Rightarrow> (c # w) # ws))"

text \<open>\<open>xs.join(sep)\<close>.\<close>

fun join :: "string \<Rightarrow> string list \<Rightarrow> string" where
  "join sep [] = []"
| "join sep [x] = x"
| "join sep (x # y # ys) = x @ sep @ join sep (y # ys)"

text \<open>\<open>xs.findIndex(p)\<close>: the index of the first element that satisfies \<open>p\<close>, or -1.\<close>

fun findIndex :: "('a \<Rightarrow> bool) \<Rightarrow> 'a list \<Rightarrow> int" where
  "findIndex p [] = - 1"
| "findIndex p (x # xs) =
     (if p x then 0 else (let i = findIndex p xs in if i < 0 then - 1 else i + 1))"

text \<open>The configuration values the scripts read as global variables.\<close>

record globals =
  MAIN_WORKER_NAME :: string
  MAIN_WORKER_EMAIL :: string
  MAIN_SUPERVISOR_NAME :: string
  MAIN_SUPERVISOR_EMAIL :: string
  SSM_NAME :: string
  SSM_EMAIL :: string
  CONTACT_COMPLETE_MONTHS :: string

text \<open>
  The subjects and the HTML bodies (Emails.js) of the messages, each kept as the template
  and the values it interpolates; a date that the script formats before interpolating is
  kept as the time value, and NaN (from an Invalid Date) as \<open>None\<close>.
\<close>

datatype subject =
    SummaryDueTomorrow
  | SummaryDueToday
  | SummaryOverdue string
  | SummarySeverelyOverdue string
  | ContactEntryReminder cell

datatype html =
    StandardSummaryReminderHtml string cell bool
  | SupervisorIncludedSummaryReminderHtml string int time cell
  | ReprimandingSummaryReminderHtml string int "int option" int time cell
  | StandardContactReminderHtml string string cell cell time int int
  | ReprimandingContactReminderHtml string string cell cell time int int
  | PostMonthContactReminderHtml string string cell cell time

text \<open>
  One call of \<open>GmailApp.sendEmail(to, subject, "", {bcc, htmlBody})\<close>; the address lists are
  kept as lists, before they are joined with commas.
\<close>

record mail =
  mail_to :: "string list"
  mail_bcc :: "string list"
  mail_subject :: subject
  mail_htmlBody :: html

text \<open>A row of a roster tab of the Automation Info spreadsheet, by its column headers.\<close>

record empInfo =
  workerName :: string
  workerEmail :: string
  supervisorName :: string
  supervisorEmail :: string
  workerCounty :: "string option"

text \<open>
  The world outside the script: the time zone of the script, the date parser, the
  configuration (\<open>getGlobalVariables\<close> throws when it cannot be loaded), whether
  \<open>GmailApp.sendEmail\<close> accepts a message given the messages already sent in this run (it
  throws otherwise), whether \<open>setValue\<close> on a row of a named sheet succeeds,
  \<open>Utilities.formatDate(date, GLOBAL_TIMEZONE, "MM/dd/yyyy")\<close>, and the rows below the
  header of the two roster tabs (\<open>None\<close> for a tab that does not exist).
\<close>

record env =
  timeZone :: zone
  Date_parse :: "string \<Rightarrow> time option"
  getGlobalVariables :: "globals option"
  GmailApp_sendEmail :: "mail list \<Rightarrow> mail \<Rightarrow> bool"
  setValue_ok :: "string \<Rightarrow> nat \<Rightarrow> bool"
  formatDate :: "time \<Rightarrow> string"
  CPSEmployeeInfo :: "empInfo list option"
  AdditionalWorkersInfo :: "empInfo list option"

section \<open>SummaryReminders.js\<close>

text \<open>
  The columns of the tracker's first sheet that \<open>sendSummaryReminders\<close> reads: 0, 4, 7, 9
  and 12. The case name column holds text (the script calls string methods on it).
\<close>

record SummaryRow =
  fullName :: string
  courtDateRaw :: cell
  dueDateRaw :: cell
  submittedRaw :: cell
  summaryLink :: cell

definition lastNameOf :: "string \<Rightarrow> string" where
  "lastNameOf fn =
     (if fn \<noteq> [] \<and> CHR '','' \<in> set fn then trim (hd (split_comma fn))
      else if fn \<noteq> [] then trim fn else [])"

text \<open>\<open>value ? new Date(value) : null\<close>: the outer \<open>None\<close> is \<open>null\<close>.\<close>

definition dateOrNull :: "env \<Rightarrow> cell \<Rightarrow> time option option" where
  "dateOrNull e c = (if truthy c then Some (newDate (Date_parse e) c) else None)"

definition daysLateOf :: "time \<Rightarrow> time \<Rightarrow> int" where
  "daysLateOf today dueDate = floorDiv (today - dueDate) msPerDay"

definition daysUntilHearingOf :: "time \<Rightarrow> time option option \<Rightarrow> int option" where
  "daysUntilHearingOf today courtDate =
     (case courtDate of
        None \<Rightarrow> Some 0
      | Some None \<Rightarrow> None
      | Some (Some c) \<Rightarrow> Some (ceilDiv (c - today) msPerDay))"

definition firstReminderDate :: "zone \<Rightarrow> time \<Rightarrow> time" where
  "firstReminderDate z dueDate = setDate z dueDate (getDate z dueDate - 1)"

definition followUpDate :: "zone \<Rightarrow> time \<Rightarrow> time" where
  "followUpDate z dueDate = setDate z dueDate (getDate z dueDate + 6)"

text \<open>The four conditions of the if-chain of \<open>sendSummaryReminders\<close>, in its order.\<close>

definition isDueTomorrow :: "zone \<Rightarrow> time \<Rightarrow> time \<Rightarrow> bool" where
  "isDueTomorrow z today dueDate =
     (toDateString z today = toDateString z (firstReminderDate z dueDate))"

definition isDueToday :: "zone \<Rightarrow> time \<Rightarrow> time \<Rightarrow> bool" where
  "isDueToday z today dueDate = (toDateString z today = toDateString z dueDate)"

definition isOverdue1to6 :: "time \<Rightarrow> time \<Rightarrow> bool" where
  "isOverdue1to6 today dueDate = (daysLateOf today dueDate > 0 \<and> daysLateOf today dueDate < 7)"

definition isSeverelyOverdue :: "time \<Rightarrow> time \<Rightarrow> bool" where
  "isSeverelyOverdue today dueDate = (daysLateOf today dueDate \<ge> 7)"

text \<open>
  What the chain leaves in \<open>emailSubject\<close>, \<open>emailHtmlBody\<close> (\<open>None\<close> is the initial empty
  string of either) and \<open>recipients\<close>, for a valid due date.
\<close>

definition summaryEmail ::
  "globals \<Rightarrow> zone \<Rightarrow> time \<Rightarrow> string \<Rightarrow> cell \<Rightarrow> int option \<Rightarrow> time
     \<Rightarrow> subject option \<times> html option \<times> string list" where
  "summaryEmail g z today lastName link daysUntilHearing dueDate =
     (let daysLate = daysLateOf today dueDate;
          remindersSent = max 0 daysLate;
          supervisorRemindersSent = max 0 (daysLate - 1)
      in if isDueTomorrow z today dueDate then
           (Some SummaryDueTomorrow,
            Some (StandardSummaryReminderHtml lastName link False),
            [MAIN_WORKER_EMAIL g])
         else if isDueToday z today dueDate then
           (Some SummaryDueToday,
            Some (StandardSummaryReminderHtml lastName link True),
            [MAIN_WORKER_EMAIL g])
         else if isOverdue1to6 today dueDate then
           (Some (SummaryOverdue lastName),
            Some (SupervisorIncludedSummaryReminderHtml lastName daysLate
                    (followUpDate z dueDate) link),
            [MAIN_WORKER_EMAIL g, MAIN_SUPERVISOR_EMAIL g])
         else if isSeverelyOverdue today dueDate then
           (Some (SummarySeverelyOverdue lastName),
            Some (ReprimandingSummaryReminderHtml lastName remindersSent daysUntilHearing
                    supervisorRemindersSent dueDate link),
            [MAIN_WORKER_EMAIL g, MAIN_SUPERVISOR_EMAIL g, SSM_EMAIL g])
         else (None, None, []))"

text \<open>\<open>recipients.filter(email => email && email.trim() !== "")\<close>.\<close>

definition removeBlanks :: "string list \<Rightarrow> string list" where
  "removeBlanks recipients = filter (\<lambda>email. email \<noteq> [] \<and> trim email \<noteq> []) recipients"

text \<open>\<open>sendEmailWithHtml\<close>: the outbox with the message added, or \<open>None\<close> when Gmail throws.\<close>

definition sendEmailWithHtml ::
  "env \<Rightarrow> string list \<Rightarrow> subject \<Rightarrow> html \<Rightarrow> mail list \<Rightarrow> mail list option" where
  "sendEmailWithHtml e to subj body outbox =
     (let m = \<lparr>mail_to = to, mail_bcc = [], mail_subject = subj, mail_htmlBody = body\<rparr>
      in if GmailApp_sendEmail e outbox m then Some (outbox @ [m]) else None)"

text \<open>
  One pass of the loop body of \<open>sendSummaryReminders\<close> over a row: the outbox after it.
  With an Invalid Date as due date every comparison of the chain is false (the difference
  is NaN and the date string is "Invalid Date"), so nothing is sent.
\<close>

definition summaryRowStep :: "globals \<Rightarrow> env \<Rightarrow> time \<Rightarrow> SummaryRow \<Rightarrow> mail list \<Rightarrow> mail list" where
  "summaryRowStep g e today row outbox =
     (let submitted = (submittedRaw row = CBool True);
          lastName = lastNameOf (fullName row);
          dueDate = dateOrNull e (dueDateRaw row);
          courtDate = dateOrNull e (courtDateRaw row)
      in if submitted \<or> dueDate = None \<or> lastName = [] then outbox
         else case dueDate of
           None \<Rightarrow> outbox
         | Some None \<Rightarrow> outbox
         | Some (Some due) \<Rightarrow>
             (case summaryEmail g (timeZone e) today lastName (summaryLink row)
                     (daysUntilHearingOf today courtDate) due of
                (emailSubject, emailHtmlBody, recipients) \<Rightarrow>
                  if recipients = [] \<or> emailSubject = None \<or> emailHtmlBody = None then outbox
                  else case sendEmailWithHtml e (removeBlanks recipients)
                              (the emailSubject) (the emailHtmlBody) outbox of
                         None \<Rightarrow> outbox
                       | Some outbox' \<Rightarrow> outbox'))"

text \<open>
  The loop over the rows below the header, and the whole function: it returns the outbox.
  When the configuration cannot be loaded the exception ends the run before any row.
\<close>

fun summaryRows :: "globals \<Rightarrow> env \<Rightarrow> time \<Rightarrow> SummaryRow list \<Rightarrow> mail list \<Rightarrow> mail list" where
  "summaryRows g e today [] outbox = outbox"
| "summaryRows g e today (row # rows) outbox =
     summaryRows g e today rows (summaryRowStep g e today row outbox)"

definition sendSummaryReminders :: "env \<Rightarrow> time \<Rightarrow> SummaryRow list \<Rightarrow> mail list \<Rightarrow> mail list" where
  "sendSummaryReminders e today data outbox =
     (case getGlobalVariables e of
        None \<Rightarrow> outbox
      | Some g \<Rightarrow> summaryRows g e today (drop 1 data) outbox)"

section \<open>Directory lookup\<close>

text \<open>
  \<open>getWorkerInfoByName\<close> scans the tabs CPSEmployeeInfo and Additional Workers Info in this
  order, skips a tab that does not exist, and returns the first row whose non-empty name
  matches after trimming.
\<close>

fun findWorker :: "string \<Rightarrow> empInfo list \<Rightarrow> empInfo option" where
  "findWorker name [] = None"
| "findWorker name (r # rs) =
     (if workerName r \<noteq> [] \<and> trim (workerName r) = trim name then Some r
      else findWorker name rs)"

fun searchTabs :: "string \<Rightarrow> empInfo list option list \<Rightarrow> empInfo option" where
  "searchTabs name [] = None"
| "searchTabs name (None # tabs) = searchTabs name tabs"
| "searchTabs name (Some rows # tabs) =
     (case findWorker name rows of
        Some r \<Rightarrow> Some r
      | None \<Rightarrow> searchTabs name tabs)"

definition getWorkerInfoByName :: "env \<Rightarrow> string \<Rightarrow> empInfo option" where
  "getWorkerInfoByName e name =
     (if name = [] then None
      else searchTabs name [CPSEmployeeInfo e, AdditionalWorkersInfo e])"

section \<open>ContactReminders.js\<close>

text \<open>
  The eight columns of a row of a month's contact sheet. The Seen By column is a dropdown
  of names and holds text.
\<close>

record ContactRow =
  childName :: cell
  caseID :: cell
  dateSeenRaw :: cell
  seenBy :: string
  dateContactEntered :: cell
  lastReminderSent :: cell
  missed :: cell
  reasonMissed :: cell

text \<open>A sheet: its name and the values of its data range, the header row first.\<close>

record sheet =
  sheetName :: string
  sheetData :: "ContactRow list"

definition months :: "string list" where
  "months = [''January'', ''February'', ''March'', ''April'', ''May'', ''June'',
             ''July'', ''August'', ''September'', ''October'', ''November'', ''December'']"

definition getMonthNumberFromName :: "string \<Rightarrow> int" where
  "getMonthNumberFromName name = findIndex (\<lambda>m. toLowerCase m = toLowerCase name) months"

definition daysRemainingInMonth :: "zone \<Rightarrow> time \<Rightarrow> int" where
  "daysRemainingInMonth z date =
     (let lastDay = newDateYMD z (getFullYear z date) (getMonth z date + 1) 0
      in ceilDiv (lastDay - date) msPerDay)"

text \<open>
  The body that \<open>sendContactReminderRow\<close> chooses; the chain is the same in its two
  branches, which pass the names of the main worker or of the roster row.
\<close>

definition contactReminderHtml ::
  "zone \<Rightarrow> time \<Rightarrow> string \<Rightarrow> string \<Rightarrow> ContactRow \<Rightarrow> time \<Rightarrow> html" where
  "contactReminderHtml z today worker supervisor row dateSeen =
     (let daysLeftInMonth = daysRemainingInMonth z today;
          daysSinceSeen = floorDiv (today - dateSeen) msPerDay
      in if getMonth z dateSeen < getMonth z today then
           PostMonthContactReminderHtml worker supervisor (childName row) (caseID row) dateSeen
         else if daysLeftInMonth \<le> 7 then
           ReprimandingContactReminderHtml worker supervisor (childName row) (caseID row)
             dateSeen daysSinceSeen daysLeftInMonth
         else
           StandardContactReminderHtml worker supervisor (childName row) (caseID row)
             dateSeen daysSinceSeen daysLeftInMonth)"

text \<open>
  The message that \<open>sendContactReminderRow\<close> builds for a row seen on \<open>dateSeen\<close>, or \<open>None\<close>
  when the worker is neither the main worker nor in a roster (it logs and returns false).
\<close>

definition contactReminderMail ::
  "globals \<Rightarrow> env \<Rightarrow> time \<Rightarrow> ContactRow \<Rightarrow> time \<Rightarrow> mail option" where
  "contactReminderMail g e today row dateSeen =
     (let daysLeftInMonth = daysRemainingInMonth (timeZone e) today;
          empInfo = getWorkerInfoByName e (seenBy row)
      in if MAIN_WORKER_NAME g = seenBy row then
           Some \<lparr>mail_to = [MAIN_WORKER_EMAIL g],
                 mail_bcc = [MAIN_SUPERVISOR_EMAIL g]
                            @ (if daysLeftInMonth \<le> 7 then [SSM_EMAIL g] else []),
                 mail_subject = ContactEntryReminder (childName row),
                 mail_htmlBody = contactReminderHtml (timeZone e) today (MAIN_WORKER_NAME g)
                                   (MAIN_SUPERVISOR_NAME g) row dateSeen\<rparr>
         else case empInfo of
           Some info \<Rightarrow>
             Some \<lparr>mail_to = [workerEmail info],
                   mail_bcc = [supervisorEmail info]
                              @ (if daysLeftInMonth \<le> 7 then [SSM_EMAIL g] else []),
                   mail_subject = ContactEntryReminder (childName row),
                   mail_htmlBody = contactReminderHtml (timeZone e) today (workerName info)
                                     (supervisorName info) row dateSeen\<rparr>
         | None \<Rightarrow> None)"

text \<open>
  \<open>sendContactReminderRow(rowData, today, sheet, rowIndex)\<close>: whether a reminder was sent,
  the sheet and the outbox. In the \<open>try\<close> block the message goes to Gmail and then the
  date goes into column F of the row; an exception of either is caught and gives false.
  The caller has checked that Date Seen is a valid date.
\<close>

definition sendContactReminderRow ::
  "globals \<Rightarrow> env \<Rightarrow> ContactRow \<Rightarrow> time \<Rightarrow> sheet \<Rightarrow> nat \<Rightarrow> mail list
     \<Rightarrow> bool \<times> sheet \<times> mail list" where
  "sendContactReminderRow g e rowData today sh rowIndex outbox =
     (case newDate (Date_parse e) (dateSeenRaw rowData) of
        None \<Rightarrow> (False, sh, outbox)
      | Some dateSeen \<Rightarrow>
          (case contactReminderMail g e today rowData dateSeen of
             None \<Rightarrow> (False, sh, outbox)
           | Some m \<Rightarrow>
               if \<not> GmailApp_sendEmail e outbox m then (False, sh, outbox)
               else if \<not> setValue_ok e (sheetName sh) rowIndex then (False, sh, outbox @ [m])
               else (True,
                     sh\<lparr>sheetData := (sheetData sh)
                          [rowIndex - 1 :=
                             (sheetData sh ! (rowIndex - 1))
                               \<lparr>lastReminderSent := CStr (formatDate e today)\<rparr>]\<rparr>,
                     outbox @ [m])))"

text \<open>The tests of \<open>processContactSheet\<close> that pass over a row with \<open>continue\<close>.\<close>

definition skipRow :: "env \<Rightarrow> time \<Rightarrow> bool \<Rightarrow> ContactRow \<Rightarrow> bool" where
  "skipRow e today isMonday row =
     (if \<not> truthy (childName row) \<or> \<not> truthy (dateSeenRaw row) \<or> seenBy row = [] then True
      else if truthy (dateContactEntered row) \<and> dateContactEntered row \<noteq> CStr [] then True
      else case newDate (Date_parse e) (dateSeenRaw row) of
        None \<Rightarrow> True
      | Some dateSeen \<Rightarrow>
          (let isPriorMonth = (getMonth (timeZone e) dateSeen < getMonth (timeZone e) today
                               \<or> getFullYear (timeZone e) dateSeen < getFullYear (timeZone e) today)
           in isPriorMonth \<and> \<not> isMonday))"

text \<open>
  The loop body for \<open>data[i]\<close>, on the counter, the sheet and the outbox, and the loop from
  index \<open>i\<close> on. The rows are read from the values taken at the start of the scan.
\<close>

definition contactRowStep ::
  "globals \<Rightarrow> env \<Rightarrow> time \<Rightarrow> bool \<Rightarrow> nat \<Rightarrow> ContactRow \<Rightarrow> nat \<times> sheet \<times> mail list
     \<Rightarrow> nat \<times> sheet \<times> mail list" where
  "contactRowStep g e today isMonday i row acc =
     (case acc of (remindersSent, sh, outbox) \<Rightarrow>
        if skipRow e today isMonday row then (remindersSent, sh, outbox)
        else case sendContactReminderRow g e row today sh (i + 1) outbox of
          (sent, sh', outbox') \<Rightarrow>
            (if sent then remindersSent + 1 else remindersSent, sh', outbox'))"

fun contactRows ::
  "globals \<Rightarrow> env \<Rightarrow> time \<Rightarrow> bool \<Rightarrow> nat \<Rightarrow> ContactRow list \<Rightarrow> nat \<times> sheet \<times> mail list
     \<Rightarrow> nat \<times> sheet \<times> mail list" where
  "contactRows g e today isMonday i [] acc = acc"
| "contactRows g e today isMonday i (row # rows) acc =
     contactRows g e today isMonday (i + 1) rows (contactRowStep g e today isMonday i row acc)"

definition processContactSheet ::
  "globals \<Rightarrow> env \<Rightarrow> sheet \<Rightarrow> time \<Rightarrow> int \<Rightarrow> bool \<Rightarrow> mail list \<Rightarrow> nat \<times> sheet \<times> mail list" where
  "processContactSheet g e sh today currentMonth isMonday outbox =
     contactRows g e today isMonday 1 (drop 1 (sheetData sh)) (0, sh, outbox)"

text \<open>\<open>sheetName.match(/^([A-Za-z]+) Contacts$/)\<close>: the captured month name.\<close>

definition monthMatch :: "string \<Rightarrow> string option" where
  "monthMatch name =
     (let n = length name - 9
      in if 9 < length name \<and> drop n name = '' Contacts''
            \<and> (\<forall>c \<in> set (take n name). isUpper c \<or> isLower c)
         then Some (take n name) else None)"

text \<open>
  \<open>CONTACT_COMPLETE_MONTHS.split(",").map(m => m.trim()).filter(Boolean)\<close>.
\<close>

definition parseCompleteMonths :: "string \<Rightarrow> string list" where
  "parseCompleteMonths s = filter (\<lambda>m. m \<noteq> []) (map trim (split_comma s))"

text \<open>
  Modelled from the spec: \<open>updateGlobalVariable\<close> is not among the sources. The update path
  of the configuration overwrites the row of the key in the Variables table, or appends a
  row when the key is absent.
\<close>

fun updateGlobalVariable :: "string \<Rightarrow> string \<Rightarrow> (string \<times> string) list \<Rightarrow> (string \<times> string) list" where
  "updateGlobalVariable k v [] = [(k, v)]"
| "updateGlobalVariable k v ((k', v') # rows) =
     (if k' = k then (k, v) # rows else (k', v') # updateGlobalVariable k v rows)"

text \<open>
  What a run of \<open>sendMonthlyContactReminders\<close> changes besides the sheets: the array
  \<open>completeMonths\<close>, the Variables table and the outbox.
\<close>

record run =
  completeMonths :: "string list"
  variables :: "(string \<times> string) list"
  outbox :: "mail list"

text \<open>The body of the loop over the sheets of the tracker, for one sheet.\<close>

definition sheetStep :: "globals \<Rightarrow> env \<Rightarrow> time \<Rightarrow> sheet \<Rightarrow> run \<Rightarrow> sheet \<times> run" where
  "sheetStep g e today sh r =
     (let currentMonth = getMonth (timeZone e) today;
          isMonday = (getDay (timeZone e) today = 1)
      in case monthMatch (sheetName sh) of
           None \<Rightarrow> (sh, r)
         | Some monthName \<Rightarrow>
             (let sheetMonth = getMonthNumberFromName monthName
              in if sheetMonth > currentMonth then (sh, r)
                 else if monthName \<in> set (completeMonths r) then (sh, r)
                 else case processContactSheet g e sh today currentMonth isMonday (outbox r) of
                   (remindersSent, sh', outbox') \<Rightarrow>
                     if isMonday \<and> remindersSent = 0 then
                       (sh', r\<lparr>completeMonths := completeMonths r @ [monthName],
                               variables := updateGlobalVariable ''CONTACT_COMPLETE_MONTHS''
                                              (join '', '' (completeMonths r @ [monthName]))
                                              (variables r),
                               outbox := outbox'\<rparr>)
                     else (sh', r\<lparr>outbox := outbox'\<rparr>)))"

fun sheetsLoop :: "globals \<Rightarrow> env \<Rightarrow> time \<Rightarrow> sheet list \<Rightarrow> run \<Rightarrow> sheet list \<times> run" where
  "sheetsLoop g e today [] r = ([], r)"
| "sheetsLoop g e today (sh # shs) r =
     (case sheetStep g e today sh r of
        (sh', r') \<Rightarrow>
          (case sheetsLoop g e today shs r' of
             (shs', r'') \<Rightarrow> (sh' # shs', r'')))"

text \<open>
  The whole function, on the sheets of the tracker, the Variables table and the outbox.
  When the configuration cannot be loaded it logs the error and returns.
\<close>

definition sendMonthlyContactReminders ::
  "env \<Rightarrow> time \<Rightarrow> sheet list \<Rightarrow> (string \<times> string) list \<Rightarrow> mail list
     \<Rightarrow> sheet list \<times> (string \<times> string) list \<times> mail list" where
  "sendMonthlyContactReminders e today allSheets vars out =
     (case getGlobalVariables e of
        None \<Rightarrow> (allSheets, vars, out)
      | Some g \<Rightarrow>
          (case sheetsLoop g e today allSheets
                  \<lparr>completeMonths = parseCompleteMonths (CONTACT_COMPLETE_MONTHS g),
                   variables = vars, outbox = out\<rparr> of
             (sheets', r) \<Rightarrow> (sheets', variables r, outbox r)))"

section \<open>Example data\<close>

text \<open>
  Two time zones: offset 0 throughout, and New York as it is in 2024, five hours behind
  with daylight saving (four hours behind) from 2024-03-10 07:00Z to 2024-11-03 06:00Z,
  that is from the wall time 03:00 of 10 March up to the wall time 02:00 of 3 November.
  Then a configuration, a world in the first zone where Gmail accepts every message and
  every write succeeds, the same world with Gmail refusing every message, the same world
  in New York, and a time given by year, month (from 0), day and hour at offset 0, or by
  year, month, day, hour and minute of the wall time of a zone.
\<close>

definition exUTC :: zone where
  "exUTC = \<lparr>offsetAt = (\<lambda>t. 0), offsetOfLocal = (\<lambda>l. 0)\<rparr>"

definition exNewYork :: zone where
  "exNewYork =
     \<lparr>offsetAt = (\<lambda>t. if 1710054000000 \<le> t \<and> t < 1730613600000
                        then - 14400000 else - 18000000),
      offsetOfLocal = (\<lambda>l. if 1710039600000 \<le> l \<and> l < 1730599200000
                             then - 14400000 else - 18000000)\<rparr>"

definition exGlobals :: globals where
  "exGlobals =
     \<lparr>MAIN_WORKER_NAME = ''Main Worker'',
      MAIN_WORKER_EMAIL = ''worker@example.org'',
      MAIN_SUPERVISOR_NAME = ''Main Supervisor'',
      MAIN_SUPERVISOR_EMAIL = ''supervisor@example.org'',
      SSM_NAME = ''Service Manager'',
      SSM_EMAIL = ''manager@example.org'',
      CONTACT_COMPLETE_MONTHS = []\<rparr>"

definition exEnv :: env where
  "exEnv =
     \<lparr>timeZone = exUTC,
      Date_parse = (\<lambda>s. None),
      getGlobalVariables = Some exGlobals,
      GmailApp_sendEmail = (\<lambda>sent m. True),
      setValue_ok = (\<lambda>name rowIndex. True),
      formatDate = (\<lambda>t. ''MM/dd/yyyy''),
      CPSEmployeeInfo = Some [],
      AdditionalWorkersInfo = None\<rparr>"

definition exEnvGmailDown :: env where
  "exEnvGmailDown = exEnv\<lparr>GmailApp_sendEmail := (\<lambda>sent m. False)\<rparr>"

definition exEnvNewYork :: env where
  "exEnvNewYork = exEnv\<lparr>timeZone := exNewYork\<rparr>"

definition exTime :: "int \<Rightarrow> int \<Rightarrow> int \<Rightarrow> int \<Rightarrow> time" where
  "exTime y m d h = MakeDay y m d * msPerDay + h * 3600000"

definition exWallTime :: "zone \<Rightarrow> int \<Rightarrow> int \<Rightarrow> int \<Rightarrow> int \<Rightarrow> int \<Rightarrow> time" where
  "exWallTime z y m d h mi = UTC z (MakeDay y m d * msPerDay + h * 3600000 + mi * 60000)"

definition exSummaryRow :: "time \<Rightarrow> SummaryRow" where
  "exSummaryRow due =
     \<lparr>fullName = ''Smith, John'',
      courtDateRaw = CStr [],
      dueDateRaw = CDate due,
      submittedRaw = CBool False,
      summaryLink = CStr ''https://example.org/summary''\<rparr>"

definition exContactRow :: "string \<Rightarrow> time \<Rightarrow> cell \<Rightarrow> ContactRow" where
  "exContactRow worker seen entered =
     \<lparr>childName = CStr ''Child'',
      caseID = CNum 1001,
      dateSeenRaw = CDate seen,
      seenBy = worker,
      dateContactEntered = entered,
      lastReminderSent = CStr [],
      missed = CStr [],
      reasonMissed = CStr []\<rparr>"

definition exHeader :: ContactRow where
  "exHeader =
     \<lparr>childName = CStr ''Child Name'',
      caseID = CStr ''Case ID'',
      dateSeenRaw = CStr ''Date Seen'',
      seenBy = ''Seen By'',
      dateContactEntered = CStr ''Date Contact Entered'',
      lastReminderSent = CStr ''Last Reminder Sent'',
      missed = CStr ''Missed'',
      reasonMissed = CStr ''Reason Missed''\<rparr>"

definition exSheet :: "string \<Rightarrow> ContactRow list \<Rightarrow> sheet" where
  "exSheet name rows = \<lparr>sheetName = name, sheetData = exHeader # rows\<rparr>"

definition exRun :: run where
  "exRun = \<lparr>completeMonths = [], variables = [], outbox = []\<rparr>"

section \<open>Properties of the date arithmetic\<close>

text \<open>
  \<open>YearFromDay\<close> is the year of the day: the day lies from the first day of that year up
  to the first day of the next. Consecutive years are 365 or 366 days apart, and the day
  of the month is between 1 and 31.
\<close>

lemma div4: "4 * ((x::int) div 4) \<le> x \<and> x < 4 * (x div 4) + 4" by presburger

lemma div100: "100 * ((x::int) div 100) \<le> x \<and> x < 100 * (x div 100) + 100" by presburger

lemma div400: "400 * ((x::int) div 400) \<le> x \<and> x < 400 * (x div 400) + 400" by presburger

lemma divE: "146097 * ((x::int) div 146097) \<le> x \<and> x < 146097 * (x div 146097) + 146097"
  by presburger

lemma DayFromYear_bounds:
  "146097 * (y - 1970) - 607 < 400 * DayFromYear y \<and>
   400 * DayFromYear y \<le> 146097 * (y - 1970) + 593"
proof -
  define a where "a = (y - 1969) div 4"
  define b where "b = (y - 1901) div 100"
  define c where "c = (y - 1601) div 400"
  have a: "4 * a \<le> y - 1969" "y - 1969 < 4 * a + 4" using div4 [of "y - 1969"] by (simp_all add: a_def)
  have b: "100 * b \<le> y - 1901" "y - 1901 < 100 * b + 100"
    using div100 [of "y - 1901"] by (simp_all add: b_def)
  have c: "400 * c \<le> y - 1601" "y - 1601 < 400 * c + 400"
    using div400 [of "y - 1601"] by (simp_all add: c_def)
  have d: "DayFromYear y = 365 * (y - 1970) + a - b + c"
    by (simp add: DayFromYear_def a_def b_def c_def)
  have a4: "400 * a \<le> 100 * y - 196900" "100 * y - 197300 < 400 * a" using a by linarith+
  have b4: "400 * b \<le> 4 * y - 7604" "4 * y - 8004 < 400 * b" using b by linarith+
  have l: "146097 * (y - 1970) - 607 < 400 * (365 * (y - 1970) + a - b + c)"
    using a4 b4 c by (simp add: algebra_simps)
  have u: "400 * (365 * (y - 1970) + a - b + c) \<le> 146097 * (y - 1970) + 593"
    using a4 b4 c by (simp add: algebra_simps)
  show ?thesis unfolding d using l u by simp
qed

lemma YearFromDay_correct:
  "DayFromYear (YearFromDay d) \<le> d \<and> d < DayFromYear (YearFromDay d + 1)"
proof -
  define y where "y = 1970 + (d * 400) div 146097"
  have e: "146097 * (y - 1970) \<le> d * 400" "d * 400 < 146097 * (y - 1970) + 146097"
    using divE [of "d * 400"] by (simp_all add: y_def)
  note b0 = DayFromYear_bounds [of "y - 1"] and b1 = DayFromYear_bounds [of y]
    and b2 = DayFromYear_bounds [of "y + 1"] and b3 = DayFromYear_bounds [of "y + 2"]
  have "400 * DayFromYear (y - 1) \<le> 400 * d" using e b0 by (simp add: algebra_simps)
  then have lo: "DayFromYear (y - 1) \<le> d" by simp
  have "400 * d < 400 * DayFromYear (y + 2)" using e b3 by (simp add: algebra_simps)
  then have hi: "d < DayFromYear (y + 2)" by simp
  have r: "YearFromDay d = (if d < DayFromYear y then y - 1
         else if DayFromYear (y + 1) \<le> d then y + 1 else y)"
    by (simp add: YearFromDay_def y_def Let_def)
  have s2: "y + 1 + 1 = y + 2" and s0: "y - 1 + 1 = y" by simp_all
  show ?thesis
    using lo hi by (auto simp: r s2 s0 add.commute)
qed

lemma succ_div:
  fixes x k :: int
  assumes "0 < k"
  shows "(x + 1) div k = x div k + (if (x + 1) mod k = 0 then 1 else 0)"
proof -
  define q where "q = x div k"
  define r where "r = x mod k"
  have x: "x = q * k + r" by (simp add: q_def r_def)
  have r: "0 \<le> r" "r < k" using assms by (simp_all add: r_def)
  show ?thesis
  proof (cases "r + 1 = k")
    case True
    then have "x + 1 = (q + 1) * k" using x by (simp add: algebra_simps)
    then show ?thesis using assms by (simp add: q_def)
  next
    case False
    then have r1: "0 \<le> r + 1" "r + 1 < k" using r by simp_all
    have x1: "x + 1 = q * k + (r + 1)" using x by simp
    have d: "(x + 1) div k = q"
      unfolding x1 using r1 assms by (simp add: div_pos_pos_trivial)
    have m: "(x + 1) mod k = r + 1"
      unfolding x1 using r1 assms by (simp add: mod_pos_pos_trivial)
    have "r + 1 \<noteq> 0" using r by simp
    then show ?thesis using d m by (simp add: q_def)
  qed
qed

lemma DayFromYear_Suc: "DayFromYear (y + 1) = DayFromYear y + 365 + InLeapYear y"
proof -
  have a: "(y + 1 - 1969) div 4 = (y - 1969) div 4 + (if (y - 1968) mod 4 = 0 then 1 else 0)"
    using succ_div [of 4 "y - 1969"] by (simp add: algebra_simps)
  have b: "(y + 1 - 1901) div 100 = (y - 1901) div 100 + (if (y - 1900) mod 100 = 0 then 1 else 0)"
    using succ_div [of 100 "y - 1901"] by (simp add: algebra_simps)
  have c: "(y + 1 - 1601) div 400 = (y - 1601) div 400 + (if (y - 1600) mod 400 = 0 then 1 else 0)"
    using succ_div [of 400 "y - 1601"] by (simp add: algebra_simps)
  have m4: "((y - 1968) mod 4 = 0) = (y mod 4 = 0)"
    using mod_diff_right_eq [of y 1968 4] by simp
  have m100: "((y - 1900) mod 100 = 0) = (y mod 100 = 0)"
    using mod_diff_right_eq [of y 1900 100] by simp
  have m400: "((y - 1600) mod 400 = 0) = (y mod 400 = 0)"
    using mod_diff_right_eq [of y 1600 400] by simp
  have d1: "y mod 100 = 0 \<Longrightarrow> y mod 4 = 0"
    using mod_mod_cancel [of 4 100 y] by simp
  have d2: "y mod 400 = 0 \<Longrightarrow> y mod 100 = 0"
    using mod_mod_cancel [of 100 400 y] by simp
  have s: "DayFromYear (y + 1) = DayFromYear y + 365
          + ((if y mod 4 = 0 then 1 else 0) - (if y mod 100 = 0 then 1 else 0)
             + (if y mod 400 = 0 then 1 else 0))"
    unfolding DayFromYear_def a b c m4 m100 m400 by simp
  have "(if y mod 4 = 0 then 1 else 0) - (if y mod 100 = 0 then 1 else 0)
          + (if y mod 400 = 0 then 1 else (0::int)) = InLeapYear y"
    using d1 d2 by (auto simp: InLeapYear_def)
  with s show ?thesis by simp
qed

lemma DayWithinYear_range:
  "0 \<le> DayWithinYear d \<and> DayWithinYear d < 365 + InLeapYear (YearFromDay d)"
  using YearFromDay_correct [of d] DayFromYear_Suc [of "YearFromDay d"]
  by (simp add: DayWithinYear_def)

lemma DateFromDay_range: "1 \<le> DateFromDay d \<and> DateFromDay d \<le> 31"
proof -
  define w where "w = DayWithinYear d"
  define l where "l = InLeapYear (YearFromDay d)"
  have l: "l = 0 \<or> l = 1" by (simp add: l_def InLeapYear_def)
  have w: "0 \<le> w" "w < 365 + l" using DayWithinYear_range [of d] by (simp_all add: w_def l_def)
  have "DateFromDay d =
     w - daysBeforeMonth l
          (if w < 31 then 0 else if w < 59 + l then 1 else if w < 90 + l then 2
           else if w < 120 + l then 3 else if w < 151 + l then 4
           else if w < 181 + l then 5 else if w < 212 + l then 6
           else if w < 243 + l then 7 else if w < 273 + l then 8
           else if w < 304 + l then 9 else if w < 334 + l then 10 else 11) + 1"
    by (simp add: DateFromDay_def MonthFromDay_def Let_def w_def l_def)
  then show ?thesis
    using w l by (auto simp: daysBeforeMonth_def)
qed

text \<open>
  The month of a day is one of the twelve, and year, month and day of the month determine
  the day: two times have the same date string exactly when they fall on the same local
  day. \<open>setDate\<close> moves a time by whole days and keeps its time of day.
\<close>

lemma MonthFromDay_range: "0 \<le> MonthFromDay d \<and> MonthFromDay d \<le> 11"
  by (simp add: MonthFromDay_def Let_def)

lemma MakeDay_civil:
  "MakeDay (YearFromDay d) (MonthFromDay d) dt = d - DateFromDay d + dt"
proof -
  have m: "MonthFromDay d div 12 = 0" "MonthFromDay d mod 12 = MonthFromDay d"
    using MonthFromDay_range [of d] by simp_all
  show ?thesis
    by (simp add: MakeDay_def Let_def m DateFromDay_def DayWithinYear_def)
qed


lemma Day_plus_within: "0 \<le> r \<Longrightarrow> r < msPerDay \<Longrightarrow> Day (q * msPerDay + r) = q"
  by (simp add: Day_def msPerDay_def div_pos_pos_trivial)

lemma TimeWithinDay_bounds: "0 \<le> TimeWithinDay t \<and> TimeWithinDay t < msPerDay"
  by (simp add: TimeWithinDay_def msPerDay_def)

text \<open>
  In a zone whose offset never changes, \<open>setDate\<close> moves a time by whole local days; in
  particular the day before a date is on the previous local day.
\<close>

lemma Day_setDate_constant:
  assumes "offsetAt z = (\<lambda>t. k)" and "offsetOfLocal z = (\<lambda>l. k)"
  shows "Day (LocalTime z (setDate z t dt)) = Day (LocalTime z t) - getDate z t + dt"
proof -
  have "LocalTime z (setDate z t dt) =
        MakeDay (getFullYear z t) (getMonth z t) dt * msPerDay + TimeWithinDay (LocalTime z t)"
    by (simp add: setDate_def LocalTime_def UTC_def assms)
  then have "Day (LocalTime z (setDate z t dt)) = MakeDay (getFullYear z t) (getMonth z t) dt"
    using TimeWithinDay_bounds [of "LocalTime z t"] by (simp add: Day_plus_within)
  then show ?thesis
    by (simp add: getFullYear_def getMonth_def getDate_def MakeDay_civil)
qed



section \<open>Properties of the summary reminders\<close>

lemma firstReminderDate_constant:
  assumes "offsetAt z = (\<lambda>t. k)" and "offsetOfLocal z = (\<lambda>l. k)"
  shows "Day (LocalTime z (firstReminderDate z due)) = Day (LocalTime z due) - 1"
  by (simp add: firstReminderDate_def Day_setDate_constant [OF assms])















text \<open>
  Across a change of offset a due date at local midnight does not help: in New York, where
  daylight saving time starts on 2024-03-10 at 02:00, a summary due on 2024-03-10 at
  midnight gets no email on 2024-03-11 at 00:30 (\<open>daysLate = 0\<close>), and one due on
  2024-03-11 at midnight gets none on 2024-03-09 at 23:45 (\<open>daysLate = -1\<close>).
\<close>

lemma new_york_midnight_due_no_email:
  "TimeWithinDay (LocalTime exNewYork (exWallTime exNewYork 2024 2 10 0 0)) = 0
   \<and> daysLateOf (exWallTime exNewYork 2024 2 11 0 30) (exWallTime exNewYork 2024 2 10 0 0) = 0
   \<and> summaryRowStep exGlobals exEnvNewYork (exWallTime exNewYork 2024 2 11 0 30)
         (exSummaryRow (exWallTime exNewYork 2024 2 10 0 0)) [] = []
   \<and> daysLateOf (exWallTime exNewYork 2024 2 9 23 45) (exWallTime exNewYork 2024 2 11 0 0)
       = - 1
   \<and> summaryRowStep exGlobals exEnvNewYork (exWallTime exNewYork 2024 2 9 23 45)
         (exSummaryRow (exWallTime exNewYork 2024 2 11 0 0)) [] = []"
  by code_simp





text \<open>
  Scenario C in New York: the same recipients.
\<close>

lemma scenario_C_new_york:
  "daysLateOf (exWallTime exNewYork 2024 2 20 10 0) (exWallTime exNewYork 2024 2 10 0 0) = 10
   \<and> map mail_to (summaryRowStep exGlobals exEnvNewYork
        (exWallTime exNewYork 2024 2 20 10 0)
        (exSummaryRow (exWallTime exNewYork 2024 2 10 0 0)) [])
       = [[''worker@example.org'', ''supervisor@example.org'', ''manager@example.org'']]"
  by code_simp

section \<open>Properties of the contact reminders\<close>

subsection \<open>The message of a row\<close>

lemma contactReminderMail_to:
  assumes "contactReminderMail g e today row dateSeen = Some m"
  shows "mail_to m =
           [if MAIN_WORKER_NAME g = seenBy row then MAIN_WORKER_EMAIL g
            else workerEmail (the (getWorkerInfoByName e (seenBy row)))]"
  using assms by (auto simp: contactReminderMail_def Let_def split: if_splits option.splits)

lemma contactReminderMail_bcc:
  assumes "contactReminderMail g e today row dateSeen = Some m"
  shows "mail_bcc m =
           (if MAIN_WORKER_NAME g = seenBy row then MAIN_SUPERVISOR_EMAIL g
            else supervisorEmail (the (getWorkerInfoByName e (seenBy row))))
           # (if daysRemainingInMonth (timeZone e) today \<le> 7 then [SSM_EMAIL g] else [])"
  using assms by (auto simp: contactReminderMail_def Let_def split: if_splits option.splits)

lemma contactReminderMail_body:
  assumes "contactReminderMail g e today row dateSeen = Some m"
  shows "\<exists>w s. mail_htmlBody m = contactReminderHtml (timeZone e) today w s row dateSeen"
  using assms
  by (auto simp: contactReminderMail_def Let_def split: if_splits option.splits) blast+

lemma contactReminderHtml_tier:
  "contactReminderHtml z today w s row dateSeen =
     (if getMonth z dateSeen < getMonth z today then
        PostMonthContactReminderHtml w s (childName row) (caseID row) dateSeen
      else if daysRemainingInMonth z today \<le> 7 then
        ReprimandingContactReminderHtml w s (childName row) (caseID row) dateSeen
          (floorDiv (today - dateSeen) msPerDay) (daysRemainingInMonth z today)
      else
        StandardContactReminderHtml w s (childName row) (caseID row) dateSeen
          (floorDiv (today - dateSeen) msPerDay) (daysRemainingInMonth z today))"
  by (simp add: contactReminderHtml_def Let_def)

text \<open>
  C2, as amended. In every contact reminder the worker is the only visible recipient and
  the supervisor is in the bcc list. When Date Seen is not in an earlier month than today
  and at most 7 days remain in the month (the reprimanding body), the bcc list is the
  supervisor and the manager; when more than 7 days remain (the standard body), the bcc
  list is the supervisor alone.
\<close>

theorem contact_recipients_by_tier:
  assumes "contactReminderMail g e today row dateSeen = Some m"
  shows "mail_to m =
           [if MAIN_WORKER_NAME g = seenBy row then MAIN_WORKER_EMAIL g
            else workerEmail (the (getWorkerInfoByName e (seenBy row)))]
       \<and> (if MAIN_WORKER_NAME g = seenBy row then MAIN_SUPERVISOR_EMAIL g
            else supervisorEmail (the (getWorkerInfoByName e (seenBy row))))
           \<in> set (mail_bcc m)
       \<and> (\<not> getMonth (timeZone e) dateSeen < getMonth (timeZone e) today
            \<and> daysRemainingInMonth (timeZone e) today \<le> 7 \<longrightarrow>
            (\<exists>w s. mail_htmlBody m =
               ReprimandingContactReminderHtml w s (childName row) (caseID row) dateSeen
                 (floorDiv (today - dateSeen) msPerDay) (daysRemainingInMonth (timeZone e) today))
            \<and> mail_bcc m =
                [if MAIN_WORKER_NAME g = seenBy row then MAIN_SUPERVISOR_EMAIL g
                 else supervisorEmail (the (getWorkerInfoByName e (seenBy row))),
                 SSM_EMAIL g])
       \<and> (\<not> getMonth (timeZone e) dateSeen < getMonth (timeZone e) today
            \<and> 7 < daysRemainingInMonth (timeZone e) today \<longrightarrow>
            (\<exists>w s. mail_htmlBody m =
               StandardContactReminderHtml w s (childName row) (caseID row) dateSeen
                 (floorDiv (today - dateSeen) msPerDay) (daysRemainingInMonth (timeZone e) today))
            \<and> mail_bcc m =
                [if MAIN_WORKER_NAME g = seenBy row then MAIN_SUPERVISOR_EMAIL g
                 else supervisorEmail (the (getWorkerInfoByName e (seenBy row)))])"
proof -
  from contactReminderMail_body [OF assms]
  obtain w s where b: "mail_htmlBody m = contactReminderHtml (timeZone e) today w s row dateSeen"
    by blast
  show ?thesis
    using contactReminderMail_to [OF assms] contactReminderMail_bcc [OF assms]
    by (auto simp: b contactReminderHtml_tier)
qed

text \<open>
  The hypotheses of C2 hold on 2024-03-12 for a child seen by the main worker on
  2024-03-05: the standard reminder goes to the worker, with the supervisor in bcc.
\<close>

theorem contact_recipients_by_tier_witness:
  "contactReminderMail exGlobals exEnv (exTime 2024 2 12 10)
      (exContactRow ''Main Worker'' (exTime 2024 2 5 0) (CStr [])) (exTime 2024 2 5 0)
     \<noteq> None
   \<and> \<not> getMonth (timeZone exEnv) (exTime 2024 2 5 0) < getMonth (timeZone exEnv) (exTime 2024 2 12 10)
   \<and> 7 < daysRemainingInMonth (timeZone exEnv) (exTime 2024 2 12 10)
   \<and> mail_to (the (contactReminderMail exGlobals exEnv (exTime 2024 2 12 10)
        (exContactRow ''Main Worker'' (exTime 2024 2 5 0) (CStr [])) (exTime 2024 2 5 0)))
       = [''worker@example.org'']
   \<and> mail_bcc (the (contactReminderMail exGlobals exEnv (exTime 2024 2 12 10)
        (exContactRow ''Main Worker'' (exTime 2024 2 5 0) (CStr [])) (exTime 2024 2 5 0)))
       = [''supervisor@example.org'']"
proof -
  let ?row = "exContactRow ''Main Worker'' (exTime 2024 2 5 0) (CStr [])"
  let ?m = "contactReminderMail exGlobals exEnv (exTime 2024 2 12 10) ?row (exTime 2024 2 5 0)"
  have h: "?m \<noteq> None" by code_simp
  then obtain m where m: "?m = Some m" by blast
  have t: "\<not> getMonth (timeZone exEnv) (exTime 2024 2 5 0) < getMonth (timeZone exEnv) (exTime 2024 2 12 10)"
    by code_simp
  have d: "7 < daysRemainingInMonth (timeZone exEnv) (exTime 2024 2 12 10)" by code_simp
  have w: "MAIN_WORKER_NAME exGlobals = seenBy ?row" by code_simp
  have a: "MAIN_WORKER_EMAIL exGlobals = ''worker@example.org''"
    "MAIN_SUPERVISOR_EMAIL exGlobals = ''supervisor@example.org''" by code_simp+
  from contact_recipients_by_tier [OF m] t d w a
  have "mail_to m = [''worker@example.org''] \<and> mail_bcc m = [''supervisor@example.org'']"
    by simp
  with h t d m show ?thesis by simp
qed

text \<open>
  C2 as stated fails: on 2024-03-26, with 5 days remaining, the reprimanding reminder is
  sent with the worker as the only visible recipient; the supervisor is in bcc, with the
  manager.
\<close>

theorem contact_reprimanding_supervisor_hidden:
  "daysRemainingInMonth (timeZone exEnv) (exTime 2024 2 26 10) = 5
   \<and> fst (sendContactReminderRow exGlobals exEnv
        (exContactRow ''Main Worker'' (exTime 2024 2 5 0) (CStr [])) (exTime 2024 2 26 10)
        (exSheet ''March Contacts'' [exContactRow ''Main Worker'' (exTime 2024 2 5 0) (CStr [])])
        2 [])
   \<and> snd (snd (sendContactReminderRow exGlobals exEnv
        (exContactRow ''Main Worker'' (exTime 2024 2 5 0) (CStr [])) (exTime 2024 2 26 10)
        (exSheet ''March Contacts'' [exContactRow ''Main Worker'' (exTime 2024 2 5 0) (CStr [])])
        2 []))
       = [\<lparr>mail_to = [''worker@example.org''],
           mail_bcc = [''supervisor@example.org'', ''manager@example.org''],
           mail_subject = ContactEntryReminder (CStr ''Child''),
           mail_htmlBody = ReprimandingContactReminderHtml ''Main Worker'' ''Main Supervisor''
             (CStr ''Child'') (CNum 1001) (exTime 2024 2 5 0) 21 5\<rparr>]
   \<and> MAIN_SUPERVISOR_EMAIL exGlobals = ''supervisor@example.org''
   \<and> ''supervisor@example.org'' \<notin> set [''worker@example.org'']"
  by code_simp

subsection \<open>The scan of a sheet\<close>

lemma sendContactReminderRow_refused:
  assumes "newDate (Date_parse e) (dateSeenRaw row) = Some dateSeen"
    and "contactReminderMail g e today row dateSeen = Some m"
    and "\<not> GmailApp_sendEmail e out m"
  shows "sendContactReminderRow g e row today sh k out = (False, sh, out)"
  using assms by (simp add: sendContactReminderRow_def)


lemma contactRowStep_skip:
  "skipRow e today isMonday row \<Longrightarrow> contactRowStep g e today isMonday i row acc = acc"
  by (simp add: contactRowStep_def split: prod.splits)


lemma skipRow_entered:
  "truthy (dateContactEntered row) \<Longrightarrow> skipRow e today isMonday row"
  by (cases "dateContactEntered row") (auto simp: skipRow_def)







text \<open>
  C6, as amended. For a row whose Date Contact Entered cell is truthy (a date, a non-empty
  text, TRUE or a number other than 0), the loop body changes neither the counter, nor the
  sheet, nor the outbox, whatever the day and the configuration, and the scan goes on with
  the next row.
\<close>

theorem entered_row_never_reminded:
  assumes "truthy (dateContactEntered row)"
  shows "contactRowStep g e today isMonday i row (n, sh, out) = (n, sh, out)
       \<and> contactRows g e today isMonday i (row # rows) (n, sh, out)
           = contactRows g e today isMonday (Suc i) rows (n, sh, out)"
  using skipRow_entered [OF assms, of e today isMonday]
  by (simp add: contactRowStep_skip)

text \<open>
  A row whose contact was entered on 2024-03-06 is passed over.
\<close>

theorem entered_row_never_reminded_witness:
  "truthy (dateContactEntered
      (exContactRow ''Main Worker'' (exTime 2024 2 5 0) (CDate (exTime 2024 2 6 0))))
   \<and> contactRowStep exGlobals exEnv (exTime 2024 2 12 10) False 1
        (exContactRow ''Main Worker'' (exTime 2024 2 5 0) (CDate (exTime 2024 2 6 0)))
        (0, exSheet ''March Contacts''
              [exContactRow ''Main Worker'' (exTime 2024 2 5 0) (CDate (exTime 2024 2 6 0))], [])
      = (0, exSheet ''March Contacts''
              [exContactRow ''Main Worker'' (exTime 2024 2 5 0) (CDate (exTime 2024 2 6 0))], [])"
proof -
  have h: "truthy (dateContactEntered
      (exContactRow ''Main Worker'' (exTime 2024 2 5 0) (CDate (exTime 2024 2 6 0))))"
    by code_simp
  from entered_row_never_reminded [OF h] h show ?thesis by blast
qed

text \<open>
  C6 as stated fails: a row whose Date Contact Entered cell holds FALSE is not empty, and
  the reminder is sent and counted.
\<close>

theorem false_entry_is_reminded:
  "dateContactEntered (exContactRow ''Main Worker'' (exTime 2024 2 5 0) (CBool False))
     = CBool False
   \<and> fst (contactRowStep exGlobals exEnv (exTime 2024 2 12 10) False 1
        (exContactRow ''Main Worker'' (exTime 2024 2 5 0) (CBool False))
        (0, exSheet ''March Contacts''
              [exContactRow ''Main Worker'' (exTime 2024 2 5 0) (CBool False)], [])) = 1
   \<and> map mail_to (snd (snd (contactRowStep exGlobals exEnv (exTime 2024 2 12 10) False 1
        (exContactRow ''Main Worker'' (exTime 2024 2 5 0) (CBool False))
        (0, exSheet ''March Contacts''
              [exContactRow ''Main Worker'' (exTime 2024 2 5 0) (CBool False)], []))))
      = [[''worker@example.org'']]"
  by code_simp

text \<open>
  C8. When Gmail refuses the message of a contact row, \<open>sendContactReminderRow\<close> returns
  false with the sheet and the outbox unchanged, the counter is not incremented, and the
  scan continues with the next row from the same state. When \<open>sendEmailWithHtml\<close> throws for
  a summary row, the row leaves the outbox unchanged and the loop continues with the next
  row.
\<close>

theorem delivery_failure_is_contained:
  "(newDate (Date_parse e) (dateSeenRaw crow) = Some dateSeen
      \<and> contactReminderMail g e today crow dateSeen = Some m
      \<and> \<not> GmailApp_sendEmail e out m \<longrightarrow>
        sendContactReminderRow g e crow today sh (i + 1) out = (False, sh, out)
        \<and> contactRowStep g e today isMonday i crow (n, sh, out) = (n, sh, out)
        \<and> contactRows g e today isMonday i (crow # crows) (n, sh, out)
            = contactRows g e today isMonday (Suc i) crows (n, sh, out))
   \<and> (submittedRaw srow \<noteq> CBool True
      \<and> lastNameOf (fullName srow) \<noteq> []
      \<and> dateOrNull e (dueDateRaw srow) = Some (Some due)
      \<and> summaryEmail g (timeZone e) today (lastNameOf (fullName srow)) (summaryLink srow)
           (daysUntilHearingOf today (dateOrNull e (courtDateRaw srow))) due = (Some s, Some b, r)
      \<and> sendEmailWithHtml e (removeBlanks r) s b out = None \<longrightarrow>
        summaryRowStep g e today srow out = out
        \<and> summaryRows g e today (srow # srows) out = summaryRows g e today srows out)"
proof (intro conjI impI)
  assume a: "newDate (Date_parse e) (dateSeenRaw crow) = Some dateSeen
      \<and> contactReminderMail g e today crow dateSeen = Some m
      \<and> \<not> GmailApp_sendEmail e out m"
  then have s: "sendContactReminderRow g e crow today sh (i + 1) out = (False, sh, out)"
    by (simp add: sendContactReminderRow_refused)
  then show "sendContactReminderRow g e crow today sh (i + 1) out = (False, sh, out)" .
  show st: "contactRowStep g e today isMonday i crow (n, sh, out) = (n, sh, out)"
  proof (cases "skipRow e today isMonday crow")
    case True
    then show ?thesis by (simp add: contactRowStep_skip)
  next
    case False
    then show ?thesis using s by (simp add: contactRowStep_def)
  qed
  show "contactRows g e today isMonday i (crow # crows) (n, sh, out)
            = contactRows g e today isMonday (Suc i) crows (n, sh, out)"
    by (simp add: st)
next
  assume a: "submittedRaw srow \<noteq> CBool True
      \<and> lastNameOf (fullName srow) \<noteq> []
      \<and> dateOrNull e (dueDateRaw srow) = Some (Some due)
      \<and> summaryEmail g (timeZone e) today (lastNameOf (fullName srow)) (summaryLink srow)
           (daysUntilHearingOf today (dateOrNull e (courtDateRaw srow))) due = (Some s, Some b, r)
      \<and> sendEmailWithHtml e (removeBlanks r) s b out = None"
  then show st: "summaryRowStep g e today srow out = out"
    by (simp add: summaryRowStep_def Let_def)
  show "summaryRows g e today (srow # srows) out = summaryRows g e today srows out"
    by (simp add: st)
qed

text \<open>
  With Gmail refusing every message, a contact row and a summary row that are due a
  reminder leave counter, sheet and outbox as they were.
\<close>

theorem delivery_failure_is_contained_witness:
  "newDate (Date_parse exEnvGmailDown)
      (dateSeenRaw (exContactRow ''Main Worker'' (exTime 2024 2 5 0) (CStr [])))
     = Some (exTime 2024 2 5 0)
   \<and> contactReminderMail exGlobals exEnvGmailDown (exTime 2024 2 12 10)
        (exContactRow ''Main Worker'' (exTime 2024 2 5 0) (CStr [])) (exTime 2024 2 5 0) \<noteq> None
   \<and> contactRows exGlobals exEnvGmailDown (exTime 2024 2 12 10) False 1
        [exContactRow ''Main Worker'' (exTime 2024 2 5 0) (CStr [])]
        (0, exSheet ''March Contacts''
              [exContactRow ''Main Worker'' (exTime 2024 2 5 0) (CStr [])], [])
      = (0, exSheet ''March Contacts''
              [exContactRow ''Main Worker'' (exTime 2024 2 5 0) (CStr [])], [])
   \<and> submittedRaw (exSummaryRow (exTime 2024 2 10 0)) \<noteq> CBool True
   \<and> lastNameOf (fullName (exSummaryRow (exTime 2024 2 10 0))) \<noteq> []
   \<and> dateOrNull exEnvGmailDown (dueDateRaw (exSummaryRow (exTime 2024 2 10 0)))
       = Some (Some (exTime 2024 2 10 0))
   \<and> summaryRows exGlobals exEnvGmailDown (exTime 2024 2 12 10)
        [exSummaryRow (exTime 2024 2 10 0)] [] = []"
proof -
  let ?crow = "exContactRow ''Main Worker'' (exTime 2024 2 5 0) (CStr [])"
  let ?srow = "exSummaryRow (exTime 2024 2 10 0)"
  let ?e = exEnvGmailDown
  let ?sh = "exSheet ''March Contacts'' [?crow]"
  have c1: "newDate (Date_parse ?e) (dateSeenRaw ?crow) = Some (exTime 2024 2 5 0)"
    by code_simp
  have c2: "contactReminderMail exGlobals ?e (exTime 2024 2 12 10) ?crow (exTime 2024 2 5 0)
              \<noteq> None"
    by code_simp
  then obtain m where m: "contactReminderMail exGlobals ?e (exTime 2024 2 12 10) ?crow
      (exTime 2024 2 5 0) = Some m"
    by blast
  have c3: "\<not> GmailApp_sendEmail ?e [] m" by (simp add: exEnvGmailDown_def)
  have s1: "submittedRaw ?srow \<noteq> CBool True" by code_simp
  have s2: "lastNameOf (fullName ?srow) \<noteq> []" by code_simp
  have s3: "dateOrNull ?e (dueDateRaw ?srow) = Some (Some (exTime 2024 2 10 0))" by code_simp
  have s4: "summaryEmail exGlobals (timeZone ?e) (exTime 2024 2 12 10) (lastNameOf (fullName ?srow))
      (summaryLink ?srow)
      (daysUntilHearingOf (exTime 2024 2 12 10) (dateOrNull ?e (courtDateRaw ?srow)))
      (exTime 2024 2 10 0)
    = (Some (SummaryOverdue ''Smith''),
       Some (SupervisorIncludedSummaryReminderHtml ''Smith'' 2 (exTime 2024 2 16 0)
               (CStr ''https://example.org/summary'')),
       [''worker@example.org'', ''supervisor@example.org''])"
    by code_simp
  have s5: "sendEmailWithHtml ?e (removeBlanks [''worker@example.org'', ''supervisor@example.org''])
      (SummaryOverdue ''Smith'')
      (SupervisorIncludedSummaryReminderHtml ''Smith'' 2 (exTime 2024 2 16 0)
               (CStr ''https://example.org/summary'')) [] = None"
    by (simp add: sendEmailWithHtml_def exEnvGmailDown_def)
  note t = delivery_failure_is_contained [of ?e ?crow "exTime 2024 2 5 0" exGlobals
      "exTime 2024 2 12 10" m "[]" ?sh 1 False 0 "[]" ?srow "exTime 2024 2 10 0"
      "SummaryOverdue ''Smith''"
      "SupervisorIncludedSummaryReminderHtml ''Smith'' 2 (exTime 2024 2 16 0)
               (CStr ''https://example.org/summary'')"
      "[''worker@example.org'', ''supervisor@example.org'']" "[]"]
  have "contactRowStep exGlobals ?e (exTime 2024 2 12 10) False 1 ?crow
      (0, ?sh, []) = (0, ?sh, [])"
    by (rule t [THEN conjunct1, THEN mp, OF conjI [OF c1 conjI [OF m c3]],
          THEN conjunct2, THEN conjunct1])
  then have k1: "contactRows exGlobals ?e (exTime 2024 2 12 10) False 1 [?crow]
      (0, ?sh, []) = (0, ?sh, [])"
    by simp
  have "summaryRowStep exGlobals ?e (exTime 2024 2 12 10) ?srow [] = []"
    by (rule t [THEN conjunct2, THEN mp,
          OF conjI [OF s1 conjI [OF s2 conjI [OF s3 conjI [OF s4 s5]]]], THEN conjunct1])
  then have k2: "summaryRows exGlobals ?e (exTime 2024 2 12 10) [?srow] [] = []"
    by simp
  from c1 c2 k1 s1 s2 s3 k2 show ?thesis by blast
qed

text \<open>
  C3, the code at the failing input. A child seen on 2023-12-15, not yet entered, in a
  sheet scanned on Monday 2024-01-08: the row counts as prior month for the Monday rule
  (its year is earlier), but the body is chosen by the month number alone, and 11 is not
  less than 0: the standard body is sent, not the post-month one. On Tuesday 2024-01-09
  the row is skipped.
\<close>

theorem december_row_in_january:
  "getFullYear (timeZone exEnv) (exTime 2023 11 15 0) = 2023
   \<and> getMonth (timeZone exEnv) (exTime 2023 11 15 0) = 11
   \<and> getFullYear (timeZone exEnv) (exTime 2024 0 8 10) = 2024
   \<and> getMonth (timeZone exEnv) (exTime 2024 0 8 10) = 0
   \<and> getDay (timeZone exEnv) (exTime 2024 0 8 10) = 1
   \<and> map mail_htmlBody (outbox (snd (sheetStep exGlobals exEnv (exTime 2024 0 8 10)
        (exSheet ''January Contacts''
           [exContactRow ''Main Worker'' (exTime 2023 11 15 0) (CStr [])]) exRun)))
      = [StandardContactReminderHtml ''Main Worker'' ''Main Supervisor'' (CStr ''Child'')
           (CNum 1001) (exTime 2023 11 15 0) 24 23]
   \<and> getDay (timeZone exEnv) (exTime 2024 0 9 10) = 2
   \<and> outbox (snd (sheetStep exGlobals exEnv (exTime 2024 0 9 10)
        (exSheet ''January Contacts''
           [exContactRow ''Main Worker'' (exTime 2023 11 15 0) (CStr [])]) exRun)) = []"
  by code_simp

subsection \<open>Month names\<close>

text \<open>
  \<open>getMonthNumberFromName\<close> maps the twelve names to 0 to 11 in order, every other name to
  -1, and two names to the same month exactly when they agree up to case.
\<close>

lemma findIndex_bounds: "- 1 \<le> findIndex p xs \<and> findIndex p xs < int (length xs)"
  by (induction xs) (auto simp: Let_def)

lemma findIndex_nth: "0 \<le> findIndex p xs \<Longrightarrow> p (xs ! nat (findIndex p xs))"
proof (induction xs)
  case Nil
  then show ?case by simp
next
  case (Cons x xs)
  show ?case
  proof (cases "p x")
    case True
    then show ?thesis by simp
  next
    case False
    with Cons.prems have i: "0 \<le> findIndex p xs"
      by (auto simp: Let_def split: if_splits)
    then have "nat (findIndex p xs + 1) = Suc (nat (findIndex p xs))" by simp
    with Cons.IH [OF i] False i show ?thesis by (simp add: Let_def)
  qed
qed

lemma getMonthNumberFromName_months:
  "map getMonthNumberFromName months = [0, 1, 2, 3, 4, 5, 6, 7, 8, 9, 10, 11]"
  by code_simp

lemma getMonthNumberFromName_range:
  "- 1 \<le> getMonthNumberFromName name \<and> getMonthNumberFromName name \<le> 11"
  using findIndex_bounds [of "\<lambda>m. toLowerCase m = toLowerCase name" months]
  by (simp add: getMonthNumberFromName_def months_def)

lemma getMonthNumberFromName_case_insensitive:
  "toLowerCase a = toLowerCase b \<Longrightarrow> getMonthNumberFromName a = getMonthNumberFromName b"
  by (simp add: getMonthNumberFromName_def)

lemma getMonthNumberFromName_injective:
  assumes "0 \<le> getMonthNumberFromName a"
    and "getMonthNumberFromName a = getMonthNumberFromName b"
  shows "toLowerCase a = toLowerCase b"
proof -
  have "toLowerCase (months ! nat (getMonthNumberFromName a)) = toLowerCase a"
    using findIndex_nth [of "\<lambda>m. toLowerCase m = toLowerCase a" months] assms(1)
    by (simp add: getMonthNumberFromName_def)
  moreover have "toLowerCase (months ! nat (getMonthNumberFromName b)) = toLowerCase b"
    using findIndex_nth [of "\<lambda>m. toLowerCase m = toLowerCase b" months] assms
    by (simp add: getMonthNumberFromName_def)
  ultimately show ?thesis using assms(2) by simp
qed

text \<open>
  C5, the code at the failing input. The sheet "Smith Contacts" matches the pattern, its
  month number is -1, which is not greater than the current month: on 2024-03-12 its open
  row is reminded, and on Monday 2024-03-11 the sheet without open rows puts "Smith" into
  the completed months.
\<close>

theorem unrecognized_month_sheet_is_processed:
  "getMonthNumberFromName ''Smith'' = - 1
   \<and> getMonth (timeZone exEnv) (exTime 2024 2 12 10) = 2
   \<and> map mail_to (outbox (snd (sheetStep exGlobals exEnv (exTime 2024 2 12 10)
        (exSheet ''Smith Contacts''
           [exContactRow ''Main Worker'' (exTime 2024 2 5 0) (CStr [])]) exRun)))
      = [[''worker@example.org'']]
   \<and> getDay (timeZone exEnv) (exTime 2024 2 11 10) = 1
   \<and> completeMonths (snd (sheetStep exGlobals exEnv (exTime 2024 2 11 10)
        (exSheet ''Smith Contacts'' []) exRun)) = [''Smith'']"
  by code_simp

subsection \<open>Completed months\<close>

lemma contactRowStep_sheetName:
  "sheetName (fst (snd (contactRowStep g e today isMonday i row (n, sh, out)))) = sheetName sh"
  by (auto simp: contactRowStep_def sendContactReminderRow_def split: option.splits prod.splits)

lemma contactRows_sheetName:
  "sheetName (fst (snd (contactRows g e today isMonday i rows (n, sh, out)))) = sheetName sh"
proof (induction rows arbitrary: i n sh out)
  case Nil
  then show ?case by simp
next
  case (Cons row rows)
  obtain n1 sh1 out1 where st: "contactRowStep g e today isMonday i row (n, sh, out) = (n1, sh1, out1)"
    by (cases "contactRowStep g e today isMonday i row (n, sh, out)") auto
  have "sheetName sh1 = sheetName sh"
    using contactRowStep_sheetName [of g e today isMonday i row n sh out] st by simp
  then show ?case using Cons.IH [of "Suc i" n1 sh1 out1] by (simp add: st)
qed

lemma processContactSheet_sheetName:
  "processContactSheet g e sh today cm isMonday out = (n, sh', out') \<Longrightarrow>
     sheetName sh' = sheetName sh"
  using contactRows_sheetName [of g e today isMonday 1 "drop 1 (sheetData sh)" 0 sh out]
  by (simp add: processContactSheet_def)


lemma map_of_updateGlobalVariable:
  "map_of (updateGlobalVariable k v rows) k = Some v"
  by (induction rows) auto

lemma sheetStep_already_complete:
  assumes "monthMatch (sheetName sh) = Some label" and "label \<in> set (completeMonths r)"
  shows "sheetStep g e today sh r = (sh, r)"
  using assms by (simp add: sheetStep_def Let_def)

lemma sheetStep_marks_complete:
  assumes "monthMatch (sheetName sh) = Some label"
    and "\<not> getMonthNumberFromName label > getMonth (timeZone e) today"
    and "label \<notin> set (completeMonths r)"
    and "getDay (timeZone e) today = 1"
    and "processContactSheet g e sh today (getMonth (timeZone e) today) True (outbox r) = (0, sh', out')"
  shows "sheetStep g e today sh r =
           (sh', r\<lparr>completeMonths := completeMonths r @ [label],
                   variables := updateGlobalVariable ''CONTACT_COMPLETE_MONTHS''
                                  (join '', '' (completeMonths r @ [label])) (variables r),
                   outbox := out'\<rparr>)"
  using assms by (simp add: sheetStep_def Let_def)



text \<open>
  Splitting at the commas what was joined with ", " gives the names back, when they are
  trimmed, non-empty and without commas: the names of sheets and the names read from the
  stored string are.
\<close>

lemma last_dropWhile_eq: "dropWhile P xs \<noteq> [] \<Longrightarrow> last (dropWhile P xs) = last xs"
proof -
  assume a: "dropWhile P xs \<noteq> []"
  have "last xs = last (takeWhile P xs @ dropWhile P xs)" by simp
  also have "\<dots> = last (dropWhile P xs)" using a by (rule last_appendR)
  finally show ?thesis by simp
qed

lemma trim_no_outer_space:
  assumes "trim s \<noteq> []"
  shows "\<not> isWhiteSpace (hd (trim s)) \<and> \<not> isWhiteSpace (last (trim s))"
proof -
  define t where "t = dropWhile isWhiteSpace s"
  define u where "u = dropWhile isWhiteSpace (rev t)"
  have tr: "trim s = rev u" by (simp add: trim_def t_def u_def)
  with assms have u: "u \<noteq> []" by simp
  then have rt: "rev t \<noteq> []" by (auto simp: u_def)
  then have t: "t \<noteq> []" by simp
  have "\<not> isWhiteSpace (hd u)" using u unfolding u_def by (rule hd_dropWhile)
  then have l: "\<not> isWhiteSpace (last (rev u))" using u by (simp add: last_rev)
  have "last u = last (rev t)" using u unfolding u_def by (rule last_dropWhile_eq)
  also have "\<dots> = hd t" using t by (simp add: last_rev)
  finally have "hd (rev u) = hd t" using u by (simp add: hd_rev)
  moreover have "\<not> isWhiteSpace (hd t)" using t unfolding t_def by (rule hd_dropWhile)
  ultimately show ?thesis using l tr by simp
qed

lemma trim_fixed:
  assumes "x = [] \<or> (\<not> isWhiteSpace (hd x) \<and> \<not> isWhiteSpace (last x))"
  shows "trim x = x"
proof (cases "x = []")
  case True
  then show ?thesis by (simp add: trim_def)
next
  case False
  with assms have h: "\<not> isWhiteSpace (hd x)" and l: "\<not> isWhiteSpace (last x)" by auto
  have 1: "dropWhile isWhiteSpace x = x" using h False by (cases x) auto
  have 2: "dropWhile isWhiteSpace (rev x) = rev x"
    using l False by (simp add: dropWhile_eq_self_iff hd_rev)
  show ?thesis by (simp add: trim_def 1 2)
qed

lemma trim_trim: "trim (trim s) = trim s"
  using trim_no_outer_space [of s] by (intro trim_fixed) blast

lemma trim_space_Cons: "trim (CHR '' '' # s) = trim s"
  by (simp add: trim_def isWhiteSpace_def)

lemma split_comma_nonempty: "split_comma s \<noteq> []"
  by (induction s) (auto split: list.splits)

lemma split_comma_no_comma: "w \<in> set (split_comma s) \<Longrightarrow> CHR '','' \<notin> set w"
  by (induction s arbitrary: w) (auto split: list.splits if_splits)

lemma split_comma_plain: "CHR '','' \<notin> set x \<Longrightarrow> split_comma x = [x]"
  by (induction x) auto

lemma split_comma_append:
  "CHR '','' \<notin> set x \<Longrightarrow> split_comma (x @ CHR '','' # s) = x # split_comma s"
  by (induction x) auto

lemma map_trim_split_space:
  "map trim (split_comma (CHR '' '' # s)) = map trim (split_comma s)"
  using split_comma_nonempty [of s]
  by (cases "split_comma s") (auto simp: trim_space_Cons)

lemma trim_no_comma: "CHR '','' \<notin> set w \<Longrightarrow> CHR '','' \<notin> set (trim w)"
proof -
  assume a: "CHR '','' \<notin> set w"
  have "set (dropWhile isWhiteSpace (rev (dropWhile isWhiteSpace w)))
          \<subseteq> set (rev (dropWhile isWhiteSpace w))"
    by (auto dest: set_dropWhileD)
  also have "\<dots> \<subseteq> set w"
    by (auto dest: set_dropWhileD)
  finally have "set (trim w) \<subseteq> set w" by (simp add: trim_def)
  with a show ?thesis by blast
qed

lemma map_trim_split_join:
  assumes "xs \<noteq> []" and "\<forall>x \<in> set xs. CHR '','' \<notin> set x \<and> trim x = x"
  shows "map trim (split_comma (join '', '' xs)) = xs"
  using assms
proof (induction "'', ''" xs rule: join.induct)
  case 1
  then show ?case by simp
next
  case (2 x)
  then show ?case by (simp add: split_comma_plain)
next
  case (3 x y ys)
  define rest where "rest = join '', '' (y # ys)"
  have c: "CHR '','' \<notin> set x" and tx: "trim x = x" using 3(3) by simp_all
  have j: "join '', '' (x # y # ys) = x @ CHR '','' # CHR '' '' # rest"
    by (simp add: rest_def)
  have "split_comma (x @ CHR '','' # CHR '' '' # rest) = x # split_comma (CHR '' '' # rest)"
    using c by (rule split_comma_append)
  then have "map trim (split_comma (join '', '' (x # y # ys)))
      = x # map trim (split_comma (CHR '' '' # rest))"
    by (simp only: j list.map tx)
  also have "\<dots> = x # map trim (split_comma rest)"
    by (simp only: map_trim_split_space)
  also have "map trim (split_comma rest) = y # ys"
    unfolding rest_def using 3 by simp
  finally show ?case .
qed

lemma parse_join:
  assumes "\<forall>x \<in> set xs. x \<noteq> [] \<and> CHR '','' \<notin> set x \<and> trim x = x"
  shows "parseCompleteMonths (join '', '' xs) = xs"
proof (cases "xs = []")
  case True
  then show ?thesis by (simp add: parseCompleteMonths_def trim_def)
next
  case False
  with assms have "map trim (split_comma (join '', '' xs)) = xs"
    by (intro map_trim_split_join) auto
  then show ?thesis using assms by (simp add: parseCompleteMonths_def filter_id_conv)
qed

lemma parse_clean:
  assumes "x \<in> set (parseCompleteMonths s)"
  shows "x \<noteq> [] \<and> CHR '','' \<notin> set x \<and> trim x = x"
proof -
  from assms obtain w where w: "w \<in> set (split_comma s)" and x: "x = trim w" and n: "x \<noteq> []"
    by (auto simp: parseCompleteMonths_def)
  have "CHR '','' \<notin> set w" using w by (rule split_comma_no_comma)
  then have "CHR '','' \<notin> set x" unfolding x by (rule trim_no_comma)
  then show ?thesis using n x trim_trim by simp
qed

lemma letters_clean:
  assumes "\<forall>c \<in> set x. isUpper c \<or> isLower c"
  shows "CHR '','' \<notin> set x \<and> trim x = x"
proof -
  have a: "\<And>c. isUpper c \<or> isLower c \<Longrightarrow> \<not> isWhiteSpace c \<and> c \<noteq> CHR '',''"
    by (auto simp: isUpper_def isLower_def isWhiteSpace_def)
  have "CHR '','' \<notin> set x" using assms a by blast
  moreover have "trim x = x"
  proof (rule trim_fixed)
    show "x = [] \<or> (\<not> isWhiteSpace (hd x) \<and> \<not> isWhiteSpace (last x))"
      using assms a by (cases "x = []") (auto simp: hd_in_set last_in_set)
  qed
  ultimately show ?thesis by simp
qed

lemma monthMatch_clean:
  assumes "monthMatch name = Some label"
  shows "label \<noteq> [] \<and> CHR '','' \<notin> set label \<and> trim label = label"
proof -
  from assms have l: "label = take (length name - 9) name" and n: "9 < length name"
    and a: "\<forall>c \<in> set label. isUpper c \<or> isLower c"
    by (auto simp: monthMatch_def Let_def split: if_splits)
  from l n have "label \<noteq> []" by auto
  with letters_clean [OF a] show ?thesis by simp
qed

text \<open>
  C4. On a Monday, when the scan of a sheet whose month is not yet complete sends no
  reminder, the loop body appends the month's name and stores the joined list; run again
  on the sheet in the same run, it finds the name and changes nothing. The name then occurs
  exactly once in the list, a list without duplicates stays so, and the stored string reads
  back as that list.
\<close>

theorem completion_is_idempotent:
  assumes "monthMatch (sheetName sh) = Some label"
    and "\<not> getMonthNumberFromName label > getMonth (timeZone e) today"
    and "label \<notin> set (completeMonths r)"
    and "getDay (timeZone e) today = 1"
    and "fst (processContactSheet g e sh today (getMonth (timeZone e) today) True (outbox r)) = 0"
    and "sheetStep g e today sh r = (sh1, r1)"
    and "sheetStep g e today sh1 r1 = (sh2, r2)"
    and "completeMonths r = parseCompleteMonths stored"
  shows "completeMonths r1 = completeMonths r @ [label]
       \<and> sh2 = sh1 \<and> r2 = r1
       \<and> count_list (completeMonths r2) label = 1
       \<and> (distinct (completeMonths r) \<longrightarrow> distinct (completeMonths r2))
       \<and> map_of (variables r2) ''CONTACT_COMPLETE_MONTHS''
           = Some (join '', '' (completeMonths r2))
       \<and> parseCompleteMonths (join '', '' (completeMonths r2)) = completeMonths r2"
proof -
  obtain sh' out' where p: "processContactSheet g e sh today (getMonth (timeZone e) today) True
      (outbox r) = (0, sh', out')"
    using assms(5)
    by (cases "processContactSheet g e sh today (getMonth (timeZone e) today) True (outbox r)") auto
  from sheetStep_marks_complete [OF assms(1-4) p] assms(6)
  have sh1: "sh1 = sh'"
    and r1: "r1 = r\<lparr>completeMonths := completeMonths r @ [label],
                   variables := updateGlobalVariable ''CONTACT_COMPLETE_MONTHS''
                                  (join '', '' (completeMonths r @ [label])) (variables r),
                   outbox := out'\<rparr>"
    by simp_all
  have cm: "completeMonths r1 = completeMonths r @ [label]" by (simp add: r1)
  have name: "sheetName sh1 = sheetName sh"
    using processContactSheet_sheetName [OF p] sh1 by simp
  have "sheetStep g e today sh1 r1 = (sh1, r1)"
    by (rule sheetStep_already_complete [of sh1 label]) (simp_all add: name assms(1) cm)
  with assms(7) have same: "sh2 = sh1" "r2 = r1" by simp_all
  have cnt: "count_list (completeMonths r2) label = 1"
    using assms(3) by (simp add: same cm count_list_0_iff)
  have dist: "distinct (completeMonths r) \<longrightarrow> distinct (completeMonths r2)"
    using assms(3) by (simp add: same cm)
  have var: "map_of (variables r2) ''CONTACT_COMPLETE_MONTHS''
           = Some (join '', '' (completeMonths r2))"
    by (simp add: same r1 map_of_updateGlobalVariable)
  have "\<forall>x \<in> set (completeMonths r2). x \<noteq> [] \<and> CHR '','' \<notin> set x \<and> trim x = x"
    using parse_clean [of _ stored] monthMatch_clean [OF assms(1)]
    by (auto simp: same cm assms(8))
  then have rt: "parseCompleteMonths (join '', '' (completeMonths r2)) = completeMonths r2"
    by (rule parse_join)
  show ?thesis using cm same cnt dist var rt by blast
qed

text \<open>
  The January sheet, with its only contact entered, on Monday 2024-03-11: after two passes
  "January" is in the completed months once.
\<close>

theorem completion_is_idempotent_witness:
  "monthMatch (sheetName (exSheet ''January Contacts''
      [exContactRow ''Main Worker'' (exTime 2024 0 20 0) (CDate (exTime 2024 0 22 0))]))
     = Some ''January''
   \<and> getDay (timeZone exEnv) (exTime 2024 2 11 10) = 1
   \<and> fst (processContactSheet exGlobals exEnv (exSheet ''January Contacts''
        [exContactRow ''Main Worker'' (exTime 2024 0 20 0) (CDate (exTime 2024 0 22 0))])
        (exTime 2024 2 11 10) (getMonth (timeZone exEnv) (exTime 2024 2 11 10)) True (outbox exRun))
       = 0
   \<and> completeMonths exRun = parseCompleteMonths []
   \<and> count_list (completeMonths (snd (sheetStep exGlobals exEnv (exTime 2024 2 11 10)
        (fst (sheetStep exGlobals exEnv (exTime 2024 2 11 10) (exSheet ''January Contacts''
           [exContactRow ''Main Worker'' (exTime 2024 0 20 0) (CDate (exTime 2024 0 22 0))])
           exRun))
        (snd (sheetStep exGlobals exEnv (exTime 2024 2 11 10) (exSheet ''January Contacts''
           [exContactRow ''Main Worker'' (exTime 2024 0 20 0) (CDate (exTime 2024 0 22 0))])
           exRun))))) ''January'' = 1"
proof -
  let ?row = "exContactRow ''Main Worker'' (exTime 2024 0 20 0) (CDate (exTime 2024 0 22 0))"
  let ?sh = "exSheet ''January Contacts'' [?row]"
  let ?today = "exTime 2024 2 11 10"
  let ?s1 = "sheetStep exGlobals exEnv ?today ?sh exRun"
  let ?s2 = "sheetStep exGlobals exEnv ?today (fst ?s1) (snd ?s1)"
  have h1: "monthMatch (sheetName ?sh) = Some ''January''" by code_simp
  have h2: "\<not> getMonthNumberFromName ''January'' > getMonth (timeZone exEnv) ?today" by code_simp
  have h3: "''January'' \<notin> set (completeMonths exRun)" by code_simp
  have h4: "getDay (timeZone exEnv) ?today = 1" by code_simp
  have h5: "fst (processContactSheet exGlobals exEnv ?sh ?today (getMonth (timeZone exEnv) ?today)
               True (outbox exRun)) = 0"
    by code_simp
  have h6: "?s1 = (fst ?s1, snd ?s1)" by simp
  have h7: "?s2 = (fst ?s2, snd ?s2)" by simp
  have h8: "completeMonths exRun = parseCompleteMonths []" by code_simp
  from completion_is_idempotent [OF h1 h2 h3 h4 h5 h6 h7 h8]
  have "count_list (completeMonths (snd ?s2)) ''January'' = 1" by blast
  with h1 h4 h5 h8 show ?thesis by blast
qed

end
